theory Spec2Isabelle
  imports Complex_Main "HOL-Library.Char_ord" "HOL-Library.Multiset"
begin

section \<open>Python text\<close>

text \<open>
  A Python \<^verbatim>\<open>str\<close> is modelled as a \<^typ>\<open>string\<close>, one \<^typ>\<open>char\<close> per code point, so
  the model covers the code points 0..255 (ASCII and Latin-1, which holds every name of
  the two name pools). The character predicates below are those of CPython 3 on that
  range: \<^verbatim>\<open>\s\<close>, \<^verbatim>\<open>\d\<close>, \<^verbatim>\<open>\w\<close> of the \<^verbatim>\<open>re\<close> module on \<^verbatim>\<open>str\<close> patterns, and
  \<^verbatim>\<open>str.lower\<close>, \<^verbatim>\<open>str.upper\<close>.
\<close>

definition code :: "char \<Rightarrow> nat" where
  "code c = of_char c"

definition in_range :: "nat \<Rightarrow> nat \<Rightarrow> char \<Rightarrow> bool" where
  "in_range lo hi c = (lo \<le> code c \<and> code c \<le> hi)"

definition re_space :: "char \<Rightarrow> bool" where
  "re_space c = (in_range 9 13 c \<or> in_range 28 32 c \<or> code c = 133 \<or> code c = 160)"

definition re_digit :: "char \<Rightarrow> bool" where
  "re_digit c = in_range 48 57 c"

definition re_word :: "char \<Rightarrow> bool" where
  "re_word c = (in_range 48 57 c \<or> in_range 65 90 c \<or> code c = 95 \<or> in_range 97 122 c
     \<or> code c = 170 \<or> in_range 178 179 c \<or> code c = 181 \<or> in_range 185 186 c
     \<or> in_range 188 190 c \<or> in_range 192 214 c \<or> in_range 216 246 c
     \<or> in_range 248 255 c)"

definition lower_chr :: "char \<Rightarrow> char" where
  "lower_chr c = (if in_range 65 90 c \<or> in_range 192 214 c \<or> in_range 216 222 c
                  then char_of (code c + 32) else c)"

definition upper_chr :: "char \<Rightarrow> char" where
  "upper_chr c = (if in_range 97 122 c \<or> in_range 224 246 c \<or> in_range 248 254 c
                  then char_of (code c - 32) else c)"

definition py_lower :: "string \<Rightarrow> string" where
  "py_lower s = map lower_chr s"

text \<open>
  \<^verbatim>\<open>str.upper\<close>: the sharp s (223) becomes \<^verbatim>\<open>SS\<close>; the upper-case forms of 181 and 255
  lie outside the modelled range and these two are left as they are.
\<close>

definition py_upper :: "string \<Rightarrow> string" where
  "py_upper s = concat (map (\<lambda>c. if code c = 223 then ''SS'' else [upper_chr c]) s)"

text \<open>\<^verbatim>\<open>s.strip(ch)\<close> for a single character \<^verbatim>\<open>ch\<close>.\<close>

definition py_strip_chr :: "char \<Rightarrow> string \<Rightarrow> string" where
  "py_strip_chr ch s = rev (dropWhile (\<lambda>c. c = ch) (rev (dropWhile (\<lambda>c. c = ch) s)))"

text \<open>\<^verbatim>\<open>s.strip()\<close>: leading and trailing whitespace removed.\<close>

definition py_strip :: "string \<Rightarrow> string" where
  "py_strip s = rev (dropWhile re_space (rev (dropWhile re_space s)))"

section \<open>Regular expressions of the \<^verbatim>\<open>re\<close> module\<close>

text \<open>
  The patterns of the two scripts use literals, character classes, \<^verbatim>\<open>\b\<close>, \<^verbatim>\<open>^\<close>, \<^verbatim>\<open>$\<close>,
  alternation, groups and greedy repetition. A pattern is a value of \<open>regex\<close>; the matcher
  is a backtracking one that lists the ways a pattern matches at a cursor in the order in
  which Python's engine tries them, so that the head of the list is the match Python
  reports.
\<close>

datatype citem = One char | Rng char char | Space | Digit | WordChr

datatype regex =
    Eps
  | Chr char
  | Cls "citem list"
  | NCls "citem list"
  | WordB
  | Bol
  | Eol
  | Seq regex regex
  | Alt regex regex
  | Star regex
  | Grp nat regex

text \<open>
  A cursor: the text before the position (reversed, nearest character first), the text
  after it, and the groups captured so far (latest first).
\<close>

type_synonym cursor = "string \<times> string \<times> (nat \<times> string) list"

fun citem_ok :: "citem \<Rightarrow> char \<Rightarrow> bool" where
  "citem_ok (One d) c = (c = d)"
| "citem_ok (Rng lo hi) c = (code lo \<le> code c \<and> code c \<le> code hi)"
| "citem_ok Space c = re_space c"
| "citem_ok Digit c = re_digit c"
| "citem_ok WordChr c = re_word c"

text \<open>
  Membership in a class; under \<^verbatim>\<open>re.IGNORECASE\<close> (\<open>ic\<close>) a character also belongs when
  its lower-case or upper-case form does.
\<close>

definition cls_ok :: "bool \<Rightarrow> citem list \<Rightarrow> char \<Rightarrow> bool" where
  "cls_ok ic items c =
     (list_ex (\<lambda>i. citem_ok i c) items \<or>
      (ic \<and> (list_ex (\<lambda>i. citem_ok i (lower_chr c)) items \<or>
             list_ex (\<lambda>i. citem_ok i (upper_chr c)) items)))"

definition chr_ok :: "bool \<Rightarrow> char \<Rightarrow> char \<Rightarrow> bool" where
  "chr_ok ic d c = (if ic then lower_chr c = lower_chr d else c = d)"

definition word_boundary :: "string \<Rightarrow> string \<Rightarrow> bool" where
  "word_boundary bef aft =
     ((case bef of [] \<Rightarrow> False | p # _ \<Rightarrow> re_word p) \<noteq>
      (case aft of [] \<Rightarrow> False | n # _ \<Rightarrow> re_word n))"

definition one_chr :: "(char \<Rightarrow> bool) \<Rightarrow> cursor \<Rightarrow> cursor list" where
  "one_chr P cur =
     (case cur of (bef, aft, g) \<Rightarrow>
        (case aft of [] \<Rightarrow> [] | x # xs \<Rightarrow> if P x then [(x # bef, xs, g)] else []))"

definition at_cursor :: "(string \<Rightarrow> string \<Rightarrow> bool) \<Rightarrow> cursor \<Rightarrow> cursor list" where
  "at_cursor P cur = (case cur of (bef, aft, g) \<Rightarrow> if P bef aft then [cur] else [])"

definition shorter :: "cursor \<Rightarrow> cursor \<Rightarrow> bool" where
  "shorter c' c = (length (fst (snd c')) < length (fst (snd c)))"

text \<open>
  Greedy repetition: one more iteration first, then none. An iteration that consumes
  nothing is dropped, as Python's engine does, so the number of iterations is bounded by
  the length of the remaining text, which is what \<open>k\<close> counts down from.
\<close>

primrec star :: "(cursor \<Rightarrow> cursor list) \<Rightarrow> nat \<Rightarrow> cursor \<Rightarrow> cursor list" where
  "star f 0 = (\<lambda>cur. [cur])"
| "star f (Suc k) =
     (\<lambda>cur. concat (map (star f k) (filter (\<lambda>c'. shorter c' cur) (f cur))) @ [cur])"

definition set_group :: "nat \<Rightarrow> cursor \<Rightarrow> cursor \<Rightarrow> cursor" where
  "set_group n cur cur' =
     (case cur' of (bef', aft', g') \<Rightarrow>
        (bef', aft', (n, rev (take (length bef' - length (fst cur)) bef')) # g'))"

primrec rmatch :: "bool \<Rightarrow> regex \<Rightarrow> cursor \<Rightarrow> cursor list" where
  "rmatch ic Eps = (\<lambda>cur. [cur])"
| "rmatch ic (Chr d) = one_chr (chr_ok ic d)"
| "rmatch ic (Cls items) = one_chr (cls_ok ic items)"
| "rmatch ic (NCls items) = one_chr (\<lambda>c. \<not> cls_ok ic items c)"
| "rmatch ic WordB = at_cursor word_boundary"
| "rmatch ic Bol = at_cursor (\<lambda>bef aft. bef = [])"
| "rmatch ic Eol = at_cursor (\<lambda>bef aft. aft = [] \<or> aft = [CHR 0x0A])"
| "rmatch ic (Seq a b) = (\<lambda>cur. concat (map (rmatch ic b) (rmatch ic a cur)))"
| "rmatch ic (Alt a b) = (\<lambda>cur. rmatch ic a cur @ rmatch ic b cur)"
| "rmatch ic (Star a) = (\<lambda>cur. star (rmatch ic a) (length (fst (snd cur))) cur)"
| "rmatch ic (Grp n a) = (\<lambda>cur. map (set_group n cur) (rmatch ic a cur))"

text \<open>The derived forms of the pattern syntax.\<close>

definition Lit :: "string \<Rightarrow> regex" where
  \<comment> \<open>a literal string, as \<^verbatim>\<open>re.escape\<close> makes one\<close>
  "Lit s = foldr (\<lambda>c r. Seq (Chr c) r) s Eps"

definition Plus :: "regex \<Rightarrow> regex" where
  "Plus r = Seq r (Star r)"

definition Opt :: "regex \<Rightarrow> regex" where
  "Opt r = Alt r Eps"

definition Seqs :: "regex list \<Rightarrow> regex" where
  "Seqs rs = foldr Seq rs Eps"

fun Alts :: "regex list \<Rightarrow> regex" where
  "Alts [] = Eps"
| "Alts [r] = r"
| "Alts (r # rs) = Alt r (Alts rs)"

text \<open>
  \<open>Rep lo hi r\<close> is \<^verbatim>\<open>r{lo,hi}\<close> and \<open>RepFrom lo r\<close> is \<^verbatim>\<open>r{lo,}\<close>, both greedy.
\<close>

fun Rep :: "nat \<Rightarrow> nat \<Rightarrow> regex \<Rightarrow> regex" where
  "Rep 0 0 r = Eps"
| "Rep 0 (Suc hi) r = Opt (Seq r (Rep 0 hi r))"
| "Rep (Suc lo) hi r = Seq r (Rep lo (hi - 1) r)"

fun RepFrom :: "nat \<Rightarrow> regex \<Rightarrow> regex" where
  "RepFrom 0 r = Star r"
| "RepFrom (Suc lo) r = Seq r (RepFrom lo r)"

text \<open>
  A match object: \<^verbatim>\<open>m.group(0)\<close> and the numbered groups (\<^verbatim>\<open>m.group(n)\<close> is \<^verbatim>\<open>None\<close>
  for a group that took no part in the match).
\<close>

record pymatch =
  group0 :: string
  groups :: "(nat \<times> string) list"

definition group :: "pymatch \<Rightarrow> nat \<Rightarrow> string option" where
  "group mt n = map_of (groups mt) n"

definition mk_match :: "string \<Rightarrow> cursor \<Rightarrow> pymatch" where
  "mk_match bef cur' =
     (case cur' of (bef', aft', g') \<Rightarrow>
        \<lparr>group0 = rev (take (length bef' - length bef) bef'), groups = g'\<rparr>)"

text \<open>The first way the pattern matches at a position, and the first that is not empty.\<close>

definition match_at :: "bool \<Rightarrow> regex \<Rightarrow> string \<Rightarrow> string \<Rightarrow> cursor option" where
  "match_at ic r bef aft =
     (case rmatch ic r (bef, aft, []) of [] \<Rightarrow> None | cur' # _ \<Rightarrow> Some cur')"

definition match_at_nonempty :: "bool \<Rightarrow> regex \<Rightarrow> string \<Rightarrow> string \<Rightarrow> cursor option" where
  "match_at_nonempty ic r bef aft =
     (case filter (\<lambda>cur'. shorter cur' (bef, aft, [])) (rmatch ic r (bef, aft, [])) of
        [] \<Rightarrow> None | cur' # _ \<Rightarrow> Some cur')"

text \<open>\<^verbatim>\<open>re.match\<close>: a match at the start of the text.\<close>

definition re_match :: "bool \<Rightarrow> regex \<Rightarrow> string \<Rightarrow> pymatch option" where
  "re_match ic r s = map_option (mk_match []) (match_at ic r [] s)"

text \<open>\<^verbatim>\<open>re.search\<close>: the leftmost match, scanning from the cursor.\<close>

fun search_from :: "bool \<Rightarrow> regex \<Rightarrow> string \<Rightarrow> string \<Rightarrow> pymatch option" where
  "search_from ic r bef [] = map_option (mk_match bef) (match_at ic r bef [])"
| "search_from ic r bef (c # cs) =
     (case match_at ic r bef (c # cs) of
        Some cur' \<Rightarrow> Some (mk_match bef cur')
      | None \<Rightarrow> search_from ic r (c # bef) cs)"

definition re_search :: "bool \<Rightarrow> regex \<Rightarrow> string \<Rightarrow> pymatch option" where
  "re_search ic r s = search_from ic r [] s"

text \<open>
  \<^verbatim>\<open>re.sub(pattern, repl, text)\<close> with a callable \<open>repl\<close> that may draw random numbers:
  the replacement function takes the match and the state \<open>st\<close> and returns the text and
  the new state. The scan follows CPython 3.7 and later: matches are replaced left to
  right without overlap; after an empty match the same position is tried once more for a
  match that is not empty, and otherwise the character there is copied.
\<close>

definition emit :: "string \<Rightarrow> string \<times> 'st \<Rightarrow> string \<times> 'st" where
  "emit out res = (case res of (rest, st) \<Rightarrow> (out @ rest, st))"

lemma match_at_nonempty_shorter:
  "match_at_nonempty ic r bef aft = Some cur' \<Longrightarrow> length (fst (snd cur')) < length aft"
proof -
  assume a: "match_at_nonempty ic r bef aft = Some cur'"
  let ?xs = "filter (\<lambda>c. shorter c (bef, aft, [])) (rmatch ic r (bef, aft, []))"
  from a have "cur' \<in> set ?xs"
    by (cases ?xs) (auto simp: match_at_nonempty_def)
  then show ?thesis
    by (simp add: shorter_def)
qed

function sub_scan ::
  "bool \<Rightarrow> regex \<Rightarrow> (pymatch \<Rightarrow> 'st \<Rightarrow> string \<times> 'st) \<Rightarrow> string \<Rightarrow> string \<Rightarrow> 'st \<Rightarrow> string \<times> 'st"
where
  "sub_scan ic r f bef aft st =
     (case match_at ic r bef aft of
        None \<Rightarrow>
          (case aft of [] \<Rightarrow> ([], st)
           | c # cs \<Rightarrow> emit [c] (sub_scan ic r f (c # bef) cs st))
      | Some cur' \<Rightarrow>
          (case f (mk_match bef cur') st of
             (out, st1) \<Rightarrow>
               if shorter cur' (bef, aft, [])
               then emit out (sub_scan ic r f (fst cur') (fst (snd cur')) st1)
               else emit out
                 (case match_at_nonempty ic r bef aft of
                    None \<Rightarrow>
                      (case aft of [] \<Rightarrow> ([], st1)
                       | c # cs \<Rightarrow> emit [c] (sub_scan ic r f (c # bef) cs st1))
                  | Some cur2 \<Rightarrow>
                      (case f (mk_match bef cur2) st1 of
                         (out2, st2) \<Rightarrow>
                           emit out2 (sub_scan ic r f (fst cur2) (fst (snd cur2)) st2)))))"
  by pat_completeness auto
termination
  by (relation "measure (\<lambda>(ic, r, f, bef, aft, st). length aft)")
     (auto simp: shorter_def dest: match_at_nonempty_shorter)

definition re_sub_st ::
  "bool \<Rightarrow> regex \<Rightarrow> (pymatch \<Rightarrow> 'st \<Rightarrow> string \<times> 'st) \<Rightarrow> string \<Rightarrow> 'st \<Rightarrow> string \<times> 'st"
where
  "re_sub_st ic r f s st = sub_scan ic r f [] s st"

text \<open>
  \<^verbatim>\<open>re.sub\<close> with a replacement that draws nothing. A replacement string is written
  \<open>\<lambda>_. s\<close>: the replacement strings of the scripts hold no backslash, so Python's
  template expansion leaves them as they are.
\<close>

definition re_sub :: "bool \<Rightarrow> regex \<Rightarrow> (pymatch \<Rightarrow> string) \<Rightarrow> string \<Rightarrow> string" where
  "re_sub ic r f s = fst (re_sub_st ic r (\<lambda>mt u. (f mt, u)) s ())"


section \<open>The random source and numbers as text\<close>

text \<open>
  The module \<^verbatim>\<open>random\<close> is modelled by a stream of natural numbers that the caller
  supplies: every draw takes the next number. \<^verbatim>\<open>random.choice(seq)\<close> picks the element at
  the drawn number modulo the length, \<^verbatim>\<open>random.randint(a, b)\<close> (for \<open>a \<le> b\<close>) adds the drawn
  number modulo \<open>b - a + 1\<close> to \<open>a\<close>, \<^verbatim>\<open>random.random()\<close> is a multiple of \<open>2^-53\<close> below 1
  and \<^verbatim>\<open>random.uniform(a, b)\<close> is \<^verbatim>\<open>a + (b-a) * random()\<close>. Amounts are exact rationals:
  the rounding of binary floating point is not modelled.
\<close>

type_synonym rng = "nat \<Rightarrow> nat"

definition draw :: "rng \<Rightarrow> nat \<times> rng" where
  "draw r = (r 0, \<lambda>i. r (Suc i))"

definition choice :: "'a list \<Rightarrow> rng \<Rightarrow> 'a \<times> rng" where
  "choice xs r = (case draw r of (n, r') \<Rightarrow> (xs ! (n mod length xs), r'))"


definition py_random :: "rng \<Rightarrow> rat \<times> rng" where
  "py_random r = (case draw r of (n, r') \<Rightarrow> (of_int (int n mod 2 ^ 53) / 2 ^ 53, r'))"

definition uniform :: "rat \<Rightarrow> rat \<Rightarrow> rng \<Rightarrow> rat \<times> rng" where
  "uniform a b r = (case py_random r of (u, r') \<Rightarrow> (a + (b - a) * u, r'))"

text \<open>
  \<^verbatim>\<open>random.shuffle(x)\<close>, as the standard library writes it:
  \<^verbatim>\<open>for i in reversed(range(1, len(x))): j = randbelow(i + 1); x[i], x[j] = x[j], x[i]\<close>.
\<close>

fun shuffle_from :: "nat \<Rightarrow> 'a list \<Rightarrow> rng \<Rightarrow> 'a list \<times> rng" where
  "shuffle_from 0 xs r = (xs, r)"
| "shuffle_from (Suc k) xs r =
     (case draw r of (n, r') \<Rightarrow>
        (let i = Suc k; j = n mod (i + 1)
         in shuffle_from k (xs[i := xs ! j, j := xs ! i]) r'))"

definition shuffle :: "'a list \<Rightarrow> rng \<Rightarrow> 'a list \<times> rng" where
  "shuffle xs r = shuffle_from (length xs - 1) xs r"

text \<open>Python's integers are unbounded: they are \<^typ>\<open>int\<close> here.\<close>

definition digit_chr :: "int \<Rightarrow> char" where
  "digit_chr d = ''0123456789'' ! nat d"

definition digit_val :: "char \<Rightarrow> int" where
  "digit_val c = int (code c) - 48"

function py_digits :: "int \<Rightarrow> string" where
  "py_digits n =
     (if n < 10 then [digit_chr n] else py_digits (n div 10) @ [digit_chr (n mod 10)])"
  by pat_completeness auto
termination
  by (relation "measure nat") auto

text \<open>\<^verbatim>\<open>str(n)\<close> for an integer.\<close>

definition py_str :: "int \<Rightarrow> string" where
  "py_str n = (if n < 0 then ''-'' @ py_digits (- n) else py_digits n)"

text \<open>\<^verbatim>\<open>int(s)\<close> for a string of ASCII digits.\<close>

definition digits_val :: "string \<Rightarrow> int" where
  "digits_val s = foldl (\<lambda>a c. 10 * a + digit_val c) 0 s"

text \<open>
  \<^verbatim>\<open>float(s)\<close> on the plain decimal forms: digits, optionally a point and more digits,
  with a digit on at least one side of the point. \<open>None\<close> is Python's \<^verbatim>\<open>ValueError\<close>.
  Python's \<^verbatim>\<open>float\<close> reads further forms (a sign, an exponent, underscores, \<^verbatim>\<open>inf\<close>,
  surrounding blanks); none of them can stand in a string of digits, commas and points,
  which is all the amount pattern hands over.
\<close>

definition py_float :: "string \<Rightarrow> rat option" where
  "py_float s =
     (let ip = takeWhile re_digit s; rest = dropWhile re_digit s
      in case rest of
           [] \<Rightarrow> if ip = [] then None else Some (of_int (digits_val ip))
         | c # fp \<Rightarrow>
             if c = CHR ''.'' \<and> list_all re_digit fp \<and> (ip \<noteq> [] \<or> fp \<noteq> [])
             then Some (of_int (digits_val ip) + of_int (digits_val fp) / 10 ^ length fp)
             else None)"

text \<open>
  The formats \<^verbatim>\<open>.0f\<close> and \<^verbatim>\<open>.1f\<close> of a number that is not negative: rounding to the nearest,
  a tie to the even neighbour.
\<close>

definition round_half_even :: "rat \<Rightarrow> int" where
  "round_half_even x =
     (let f = \<lfloor>x\<rfloor>; d = x - of_int f
      in if d < 1 / 2 then f else if 1 / 2 < d then f + 1 else if even f then f else f + 1)"

definition fmt_f0 :: "rat \<Rightarrow> string" where
  "fmt_f0 x = py_str (round_half_even x)"

definition fmt_f1 :: "rat \<Rightarrow> string" where
  "fmt_f1 x = (let t = round_half_even (x * 10) in py_str (t div 10) @ ''.'' @ py_str (t mod 10))"

section \<open>Strings and dictionaries\<close>

text \<open>\<^verbatim>\<open>s.split()\<close>: the words between runs of whitespace.\<close>

fun split_ws :: "string \<Rightarrow> string \<Rightarrow> string list" where
  "split_ws w [] = (if w = [] then [] else [rev w])"
| "split_ws w (c # cs) =
     (if re_space c then (if w = [] then split_ws [] cs else rev w # split_ws [] cs)
      else split_ws (c # w) cs)"

definition py_split :: "string \<Rightarrow> string list" where
  "py_split s = split_ws [] s"

fun py_join :: "string \<Rightarrow> string list \<Rightarrow> string" where
  "py_join sep [] = []"
| "py_join sep [w] = w"
| "py_join sep (w # ws) = w @ sep @ py_join sep ws"

fun starts_with :: "string \<Rightarrow> string \<Rightarrow> bool" where
  \<comment> \<open>\<^verbatim>\<open>s.startswith(p)\<close>, the text first\<close>
  "starts_with s [] = True"
| "starts_with [] (p # ps) = False"
| "starts_with (c # cs) (p # ps) = (c = p \<and> starts_with cs ps)"

fun contains :: "string \<Rightarrow> string \<Rightarrow> bool" where
  \<comment> \<open>\<^verbatim>\<open>p in s\<close> for strings, the text first\<close>
  "contains [] p = (p = [])"
| "contains (c # cs) p = (starts_with (c # cs) p \<or> contains cs p)"


text \<open>
  A record of a CSV file, as \<^verbatim>\<open>csv.DictReader\<close> yields it: a dictionary from the field
  names to the cells, in the order of the header. A cell is a string, or \<^verbatim>\<open>None\<close> where
  the line was shorter than the header. (A line longer than the header, whose surplus
  \<^verbatim>\<open>DictReader\<close> files under the key \<^verbatim>\<open>None\<close>, is not modelled.) Assignment \<^verbatim>\<open>d[k] = v\<close>
  keeps the place of a key that is there and appends a new one.
\<close>

type_synonym cell = "string option"

type_synonym row = "(string \<times> cell) list"

fun dict_set :: "'k \<Rightarrow> 'v \<Rightarrow> ('k \<times> 'v) list \<Rightarrow> ('k \<times> 'v) list" where
  "dict_set k v [] = [(k, v)]"
| "dict_set k v ((k', v') # d) = (if k' = k then (k, v) # d else (k', v') # dict_set k v d)"

definition dict_get :: "('k \<times> 'v) list \<Rightarrow> 'k \<Rightarrow> 'v option" where
  "dict_get d k = map_of d k"

definition has_key :: "('k \<times> 'v) list \<Rightarrow> 'k \<Rightarrow> bool" where
  "has_key d k = (k \<in> set (map fst d))"

datatype py_error = AttributeError | TypeError | ValueError

text \<open>
  What \<^verbatim>\<open>csv.DictWriter\<close> writes for a field of a record: the string of the cell, and the
  empty string for a key that is missing (\<^verbatim>\<open>restval\<close>) and for the cell \<^verbatim>\<open>None\<close>.
\<close>

definition cell_text :: "cell option \<Rightarrow> string" where
  "cell_text c = (case c of Some (Some v) \<Rightarrow> v | _ \<Rightarrow> [])"

text \<open>
  \<^verbatim>\<open>writer.writeheader(); writer.writerows(rows)\<close>: \<^verbatim>\<open>writerows\<close> raises \<^verbatim>\<open>ValueError\<close> for
  a record with a key that is not a field name, and the script ends there. Otherwise the
  file holds the header and, for every record, the texts of its fields in the order of the
  header. (Quoting and line ends are the \<^verbatim>\<open>csv\<close> module's and are not modelled.)
\<close>

definition write_csv ::
  "string list \<Rightarrow> row list \<Rightarrow> py_error + (string list \<times> string list list)" where
  "write_csv fieldnames rows =
     (if list_all (\<lambda>rw. list_all (\<lambda>kv. fst kv \<in> set fieldnames) rw) rows
      then Inr (fieldnames, map (\<lambda>rw. map (\<lambda>k. cell_text (dict_get rw k)) fieldnames) rows)
      else Inl ValueError)"

section \<open>anonymize\_mentors.py\<close>

definition HONORIFICS :: "string list" where
  "HONORIFICS =
     [''Dr.'', ''Prof.'', ''Mr.'', ''Ms.'', ''Mrs.'']"

datatype region = US | Mexico | China | India

definition regions :: "region list" where
  \<comment> \<open>\<^verbatim>\<open>list(FIRST_NAMES.keys())\<close>, in the order of the dictionary\<close>
  "regions = [US, Mexico, China, India]"

fun FIRST_NAMES :: "region \<Rightarrow> string list" where
  "FIRST_NAMES US =
     [''Michael'', ''Jennifer'', ''Robert'', ''Sarah'', ''David'', ''Lisa'', ''James'',
      ''Emily'', ''John'', ''Amanda'']"
| "FIRST_NAMES Mexico =
     [''Carlos'', (''Mar'' @ [CHR 0xED] @ ''a''), (''Jos'' @ [CHR 0xE9]), ''Gabriela'',
      ''Luis'', ''Ana'', ''Miguel'', (''Sof'' @ [CHR 0xED] @ ''a''), ''Diego'',
      ''Isabella'']"
| "FIRST_NAMES China =
     [''Wei'', ''Li'', ''Ming'', ''Yan'', ''Chen'', ''Hua'', ''Jun'', ''Xin'', ''Jian'',
      ''Mei'']"
| "FIRST_NAMES India =
     [''Raj'', ''Priya'', ''Amit'', ''Anjali'', ''Arjun'', ''Kavya'', ''Rohan'', ''Neha'',
      ''Vikram'', ''Sanya'']"

fun LAST_NAMES :: "region \<Rightarrow> string list" where
  "LAST_NAMES US =
     [''Smith'', ''Johnson'', ''Williams'', ''Brown'', ''Jones'', ''Garcia'', ''Miller'',
      ''Davis'', ''Martinez'', ''Rodriguez'']"
| "LAST_NAMES Mexico =
     [(''Garc'' @ [CHR 0xED] @ ''a''), (''Rodr'' @ [CHR 0xED] @ ''guez''),
      (''Mart'' @ [CHR 0xED] @ ''nez''), (''L'' @ [CHR 0xF3] @ ''pez''),
      (''Gonz'' @ [CHR 0xE1] @ ''lez''), (''Hern'' @ [CHR 0xE1] @ ''ndez''),
      (''P'' @ [CHR 0xE9] @ ''rez''), (''S'' @ [CHR 0xE1] @ ''nchez''),
      (''Ram'' @ [CHR 0xED] @ ''rez''), ''Torres'']"
| "LAST_NAMES China =
     [''Wang'', ''Li'', ''Zhang'', ''Liu'', ''Chen'', ''Yang'', ''Huang'', ''Zhao'',
      ''Wu'', ''Zhou'']"
| "LAST_NAMES India =
     [''Sharma'', ''Patel'', ''Singh'', ''Kumar'', ''Reddy'', ''Gupta'', ''Mehta'',
      ''Rao'', ''Iyer'', ''Nair'']"

definition tech_companies :: "string list" where
  "tech_companies =
     [''Google'', ''Facebook'', ''Meta'', ''Amazon'', ''Microsoft'', ''Apple'',
      ''Netflix'', ''Tesla'', ''IBM'', ''Oracle'', ''Salesforce'', ''Adobe'', ''Intel'',
      ''NVIDIA'', ''Cisco'', ''Twitter'', ''LinkedIn'', ''Uber'', ''Lyft'', ''Airbnb'',
      ''Stripe'', ''PayPal'', ''Square'', ''Snapchat'', ''Pinterest'', ''Reddit'',
      ''Zoom'', ''Slack'', ''Dropbox'', ''Box'', ''Spotify'', ''Shopify'', ''Atlassian'',
      ''ServiceNow'', ''Workday'', ''Zendesk'', ''HubSpot'', ''Twilio'', ''Okta'',
      ''Splunk'', ''Datadog'', ''Snowflake'', ''Palantir'', ''Cloudflare'', ''MongoDB'',
      ''Elastic'', ''Confluent'', ''HashiCorp'', ''GitLab'', ''GitHub'', ''Bitbucket'',
      ''Jira'', ''Confluence'', ''Asana'', ''Monday'', ''Notion'', ''Airtable'', ''Figma'',
      ''Canva'', ''Miro'', ''Tableau'', ''Looker'', ''Domo'', ''Qlik'', ''MicroStrategy'',
      ''SAS'', ''New Relic'', ''AppDynamics'', ''PagerDuty'', ''Opsgenie'', ''VictorOps'',
      ''Docker'', ''Kubernetes'', ''Jenkins'', ''CircleCI'', ''Travis'', ''Harness'',
      ''LaunchDarkly'', ''Optimizely'', ''Amplitude'', ''Mixpanel'', ''Segment'', ''Heap'',
      ''FullStory'', ''LogRocket'', ''Sentry'', ''Rollbar'', ''Bugsnag'', ''Honeybadger'',
      ''Nielsen'', ''Gartner'', ''Forrester'', ''VMware'', ''Dell'', ''HP'', ''Lenovo'',
      ''Asus'', ''Acer'', ''Samsung'', ''LG'', ''Sony'', ''Panasonic'', ''Toshiba'',
      ''Hitachi'', ''Fujitsu'', ''NEC'', ''Sharp'', ''Motorola'', ''Nokia'', ''Ericsson'',
      ''Alcatel'', ''Huawei'', ''ZTE'', ''Xiaomi'', ''Oppo'', ''Vivo'', ''OnePlus'',
      ''Realme'', ''Meizu'', ''Everfest'', ''uShip'', ''Matterport'', ''WastePlace'',
      ''ModuleMD'', ''CustomInk'', ''BuyWithMe'', ''FamilyID'', ''WeWork'', ''OpenDoor'',
      ''HotelTonight'', ''GoFundMe'', ''CrowdStrike'', ''AppZen'', ''MapMyFitness'',
      ''MapMyRun'', ''SunGard'', ''OrderMyGear'', ''ProsperOps'', ''RedBumper'',
      ''FeedMagnet'', ''EdSight'', ''ZeroBlock'', ''WestExec'', ''NovaCentrix'',
      ''MachineCore'', ''BuildGroup'', ''BreakingPoint'', ''ThermoAI'', ''SuperData'',
      ''Seeoloz'', ''NXP'']"

definition financial_institutions :: "string list" where
  "financial_institutions =
     [''Goldman Sachs'', ''Morgan Stanley'', ''JPMorgan'', ''Citigroup'',
      ''Bank of America'', ''Wells Fargo'', ''Credit Suisse'', ''Deutsche Bank'',
      ''Barclays'', ''HSBC'', ''UBS'', ''Citi'', ''Chase'', ''Fidelity'', ''Vanguard'',
      ''BlackRock'', ''State Street'', ''Charles Schwab'', ''TD Ameritrade'', ''E-Trade'',
      ''Robinhood'', ''Coinbase'', ''Kraken'', ''Gemini'', ''Binance'', ''Bitfinex'']"

definition consulting_firms :: "string list" where
  "consulting_firms =
     [''McKinsey'', ''BCG'', ''Bain'', ''Deloitte'', ''PwC'', ''KPMG'', ''EY'',
      ''Accenture'', ''Booz Allen'', ''Oliver Wyman'', ''AT Kearney'', ''Roland Berger'']"

definition insurance_companies :: "string list" where
  "insurance_companies =
     [''Aflac'', ''Allstate'', ''State Farm'', ''Geico'', ''Progressive'', ''Farmers'',
      ''Liberty Mutual'', ''Travelers'', ''Nationwide'', ''USAA'', ''MetLife'',
      ''Prudential'', ''AIG'', ''Chubb'']"

text \<open>
  The dictionary \<^verbatim>\<open>known_entities\<close> in its iteration order (the order of first insertion; the
  key \<^verbatim>\<open>Splunk\<close> is written twice in the source and keeps its first place).
\<close>

definition known_entities :: "(string \<times> string) list" where
  "known_entities =
     map (\<lambda>e. (e, ''[Technology Company]'')) tech_companies @
     map (\<lambda>e. (e, ''[Financial Institution]'')) financial_institutions @
     map (\<lambda>e. (e, ''[Consulting Firm]'')) consulting_firms @
     map (\<lambda>e. (e, ''[Insurance Company]'')) insurance_companies"

definition common_acronyms :: "string list" where
  "common_acronyms =
     [''MBA'', ''PhD'', ''CEO'', ''CFO'', ''CTO'', ''COO'', ''VP'', ''SVP'', ''EVP'',
      ''CPA'', ''CFA'', ''JD'', ''MD'', ''RN'', ''BS'', ''BA'', ''MS'', ''MA'', ''USA'',
      ''NYC'', ''IT'', ''AI'', ''ML'', ''API'', ''AWS'', ''SaaS'', ''BI'', ''SEO'',
      ''SQL'', ''NoSQL'', ''IoT'', ''R&D'', ''M&A'', ''HR'', ''PR'', ''STEM'', ''SBIR'',
      ''STTR'', ''NSF'', ''CBM'', ''ASA'', ''MAAA'', ''CRM'', ''AUM'', ''AVs'', ''HVAC'',
      ''DEC'', ''HRTech'', ''InsurTech'', ''AgTech'', ''MAU'', ''FTE'']"

text \<open>
  \<^verbatim>\<open>generate_random_name(used_names)\<close>: up to the given number of attempts (1000 in the
  source); the result is \<^verbatim>\<open>(first, last, full_name)\<close>, the set of used names as the call
  leaves it, and the random source.
\<close>

fun name_attempts ::
  "nat \<Rightarrow> string set \<Rightarrow> rng \<Rightarrow> (string \<times> string \<times> string) \<times> string set \<times> rng" where
  "name_attempts 0 used r =
     (let fallback = ''Person '' @ py_str (int (card used) + 1)
      in ((fallback, [], fallback), used, r))"
| "name_attempts (Suc n) used r =
     (case choice regions r of (region, r1) \<Rightarrow>
      case choice (FIRST_NAMES region) r1 of (first_name, r2) \<Rightarrow>
      case choice (LAST_NAMES region) r2 of (last_name, r3) \<Rightarrow>
        (let full_name = first_name @ '' '' @ last_name
         in if full_name \<notin> used
            then ((first_name, last_name, full_name), insert full_name used, r3)
            else name_attempts n used r3))"

definition generate_random_name ::
  "string set \<Rightarrow> rng \<Rightarrow> (string \<times> string \<times> string) \<times> string set \<times> rng" where
  "generate_random_name used r = name_attempts 1000 used r"

fun find_honorific :: "string list \<Rightarrow> string \<Rightarrow> string option \<times> string" where
  "find_honorific [] name = (None, name)"
| "find_honorific (h # hs) name =
     (if starts_with name h then (Some h, py_strip (drop (length h) name))
      else find_honorific hs name)"

definition extract_honorific :: "string \<Rightarrow> string option \<times> string" where
  "extract_honorific name = find_honorific HONORIFICS (py_strip name)"

text \<open>The pattern \<^verbatim>\<open>r'\b' + re.escape(x) + r'\b'\<close>.\<close>

definition whole_word :: "string \<Rightarrow> regex" where
  "whole_word x = Seqs [WordB, Lit x, WordB]"

text \<open>The first pass of \<^verbatim>\<open>anonymize_bio\<close>: the person's own name.\<close>

definition replace_own_name :: "string \<Rightarrow> string \<Rightarrow> string \<Rightarrow> string \<Rightarrow> string \<Rightarrow> string" where
  "replace_own_name text original_name new_first_name new_last_name new_full_name =
     (let name_without_honorific = snd (extract_honorific original_name);
          name_parts = py_split name_without_honorific
      in if 2 \<le> length name_parts then
           (let first_name = name_parts ! 0;
                last_name = py_join '' '' (drop 1 name_parts);
                text1 = re_sub True (whole_word name_without_honorific) (\<lambda>_. new_full_name) text;
                text2 = re_sub True (whole_word first_name) (\<lambda>_. new_first_name) text1
            in re_sub True (whole_word last_name) (\<lambda>_. new_last_name) text2)
         else if length name_parts = 1 then
           re_sub True (whole_word (name_parts ! 0)) (\<lambda>_. new_full_name) text
         else text)"

text \<open>The loop over \<^verbatim>\<open>known_entities.items()\<close>.\<close>

definition replace_known_entities :: "string \<Rightarrow> string" where
  "replace_known_entities text =
     foldl (\<lambda>t er. re_sub True (whole_word (fst er)) (\<lambda>_. snd er) t) text known_entities"

definition AZ :: citem where "AZ = Rng CHR ''A'' CHR ''Z''"
definition az :: citem where "az = Rng CHR ''a'' CHR ''z''"
definition d09 :: citem where "d09 = Rng CHR ''0'' CHR ''9''"

definition camel_case_pattern :: regex where
  \<comment> \<open>\<^verbatim>\<open>\b[A-Z][a-z]+[A-Z][a-z]*(?:[A-Z][a-z]*)*\b\<close>\<close>
  "camel_case_pattern =
     Seqs [WordB, Cls [AZ], Plus (Cls [az]), Cls [AZ], Star (Cls [az]),
           Star (Seq (Cls [AZ]) (Star (Cls [az]))), WordB]"

definition replace_camel_case :: "pymatch \<Rightarrow> string" where
  "replace_camel_case mt =
     (let entity = group0 mt
      in if entity \<in> set [''PhD'', ''MBA'', ''CTO'', ''CEO'', ''CFO''] then entity
         else if entity \<in> set [''Technology'', ''Company'', ''Financial'', ''Institution'',
                    ''Consulting'', ''Firm'', ''Insurance'', ''Investment'', ''Network'',
                    ''University''] then entity
         else ''[Technology Company]'')"

definition acronym_pattern :: regex where
  \<comment> \<open>\<^verbatim>\<open>\b[A-Z]{3,}\b\<close>\<close>
  "acronym_pattern = Seqs [WordB, RepFrom 3 (Cls [AZ]), WordB]"

definition replace_acronym :: "pymatch \<Rightarrow> string" where
  "replace_acronym mt =
     (let entity = group0 mt
      in if entity \<in> set common_acronyms then entity else ''[Technology Company]'')"

definition multiword_pattern :: regex where
  \<comment> \<open>\<^verbatim>\<open>\b(?:[A-Z][a-z]+\s+){1,4}(?:[A-Z][a-z]+|[A-Z]{2,})\b\<close>\<close>
  "multiword_pattern =
     Seqs [WordB, Rep 1 4 (Seqs [Cls [AZ], Plus (Cls [az]), Plus (Cls [Space])]),
           Alt (Seq (Cls [AZ]) (Plus (Cls [az]))) (RepFrom 2 (Cls [AZ])), WordB]"

definition stop_words :: "regex" where
  \<comment> \<open>\<^verbatim>\<open>(the|a|an|in|on|at|to|for|of|and|or|but)\<close>\<close>
  "stop_words = Grp 1 (Alts (map Lit [''the'', ''a'', ''an'', ''in'', ''on'', ''at'', ''to'',
                   ''for'', ''of'', ''and'', ''or'', ''but'']))"

definition skip_patterns :: "regex list" where
  "skip_patterns = [Seqs [Bol, stop_words, Cls [Space]], Seqs [Cls [Space], stop_words, Eol]]"

definition replace_multiword :: "pymatch \<Rightarrow> string" where
  "replace_multiword mt =
     (let entity = group0 mt; entity_lower = py_lower entity
      in if list_ex (\<lambda>p. re_search False p entity_lower \<noteq> None) skip_patterns then entity
         else if list_ex (contains entity_lower)
                   [''university'', ''college'', ''school'', ''institute''] then ''[University]''
         else if list_ex (contains entity_lower)
                   [''bank'', ''financial'', ''capital'', ''ventures'', ''partners'',
                    ''investment'', ''fund'', ''equity''] then ''[Financial Institution]''
         else if list_ex (contains entity_lower) [''consulting'', ''advisors'', ''advisory'']
           then ''[Consulting Firm]''
         else if list_ex (contains entity_lower) [''insurance'', ''life'']
           then ''[Insurance Company]''
         else if contains entity_lower ''angel'' \<and> contains entity_lower ''network''
           then ''[Investment Network]''
         else ''[Technology Company]'')"

definition url_pattern :: regex where
  \<comment> \<open>\<^verbatim>\<open>https?://[^\s,]+\<close>\<close>
  "url_pattern = Seqs [Lit ''http'', Opt (Chr CHR ''s''), Lit ''://'', Plus (NCls [Space, One CHR '','']) ]"

definition www_pattern :: regex where
  \<comment> \<open>\<^verbatim>\<open>www\.[^\s,]+\<close>\<close>
  "www_pattern = Seqs [Lit ''www.'', Plus (NCls [Space, One CHR '',''])]"

definition email_pattern :: regex where
  \<comment> \<open>\<^verbatim>\<open>\b[A-Za-z0-9._%+-]+@[A-Za-z0-9.-]+\.[A-Z|a-z]{2,}\b\<close>\<close>
  "email_pattern =
     Seqs [WordB,
           Plus (Cls [AZ, az, d09, One CHR ''.'', One CHR ''_'', One CHR ''%'', One CHR ''+'',
                      One CHR ''-'']),
           Chr CHR ''@'',
           Plus (Cls [AZ, az, d09, One CHR ''.'', One CHR ''-'']),
           Chr CHR ''.'',
           RepFrom 2 (Cls [AZ, One CHR ''|'', az]),
           WordB]"

definition sep_opt :: regex where
  \<comment> \<open>\<^verbatim>\<open>[-.]?\<close>\<close>
  "sep_opt = Opt (Cls [One CHR ''-'', One CHR ''.''])"

definition phone_pattern :: regex where
  \<comment> \<open>\<^verbatim>\<open>\b\d{3}[-.]?\d{3}[-.]?\d{4}\b\<close>\<close>
  "phone_pattern =
     Seqs [WordB, Rep 3 3 (Cls [Digit]), sep_opt, Rep 3 3 (Cls [Digit]), sep_opt,
           Rep 4 4 (Cls [Digit]), WordB]"

definition phone_paren_pattern :: regex where
  \<comment> \<open>\<^verbatim>\<open>\(\d{3}\)\s*\d{3}[-.]?\d{4}\<close>\<close>
  "phone_paren_pattern =
     Seqs [Chr CHR ''('', Rep 3 3 (Cls [Digit]), Chr CHR '')'', Star (Cls [Space]),
           Rep 3 3 (Cls [Digit]), sep_opt, Rep 4 4 (Cls [Digit])]"

text \<open>
  \<^verbatim>\<open>anonymize_bio\<close>. The passes run in the order of the source; each works on the text the
  previous one returned.
\<close>

definition redact_bio :: "string \<Rightarrow> string \<Rightarrow> string \<Rightarrow> string \<Rightarrow> string \<Rightarrow> string" where
  "redact_bio bio original_name new_first_name new_last_name new_full_name =
     (let text1 = replace_own_name bio original_name new_first_name new_last_name new_full_name;
          text2 = replace_known_entities text1;
          text3 = re_sub False camel_case_pattern replace_camel_case text2;
          text4 = re_sub False acronym_pattern replace_acronym text3;
          text5 = re_sub False multiword_pattern replace_multiword text4;
          text6 = re_sub False url_pattern (\<lambda>_. ''[website]'') text5;
          text7 = re_sub False www_pattern (\<lambda>_. ''[website]'') text6;
          text8 = re_sub False email_pattern (\<lambda>_. ''[email]'') text7;
          text9 = re_sub False phone_pattern (\<lambda>_. ''[phone]'') text8
      in re_sub False phone_paren_pattern (\<lambda>_. ''[phone]'') text9)"

definition anonymize_bio :: "cell \<Rightarrow> string \<Rightarrow> string \<Rightarrow> string \<Rightarrow> string \<Rightarrow> cell" where
  "anonymize_bio bio original_name new_first_name new_last_name new_full_name =
     (case bio of
        None \<Rightarrow> None
      | Some b \<Rightarrow>
          if b = [] then Some b
          else Some (redact_bio b original_name new_first_name new_last_name new_full_name))"

text \<open>
  The body of the loop of \<^verbatim>\<open>anonymize_csv\<close> for one record. \<^verbatim>\<open>row.get('Full Name', '')\<close> is
  the empty string for a missing key and \<^verbatim>\<open>None\<close> for an empty cell of a short line, on
  which \<^verbatim>\<open>name.strip()\<close> raises \<^verbatim>\<open>AttributeError\<close>.
\<close>

definition mentor_row ::
  "row \<Rightarrow> string set \<Rightarrow> rng \<Rightarrow> py_error + (row \<times> string set \<times> rng)" where
  "mentor_row rw used r =
     (case (case dict_get rw ''Full Name'' of None \<Rightarrow> Some [] | Some v \<Rightarrow> v) of
        None \<Rightarrow> Inl AttributeError
      | Some original_name \<Rightarrow>
          (case extract_honorific original_name of (honorific, name_without_honorific) \<Rightarrow>
           case generate_random_name used r of ((new_first, new_last, new_full), used', r') \<Rightarrow>
             (let new_name_with_honorific =
                    (case honorific of None \<Rightarrow> new_full
                     | Some h \<Rightarrow> if h = [] then new_full else h @ '' '' @ new_full);
                  row1 = dict_set ''Full Name'' (Some new_name_with_honorific) rw;
                  row2 = (case dict_get row1 ''Bio'' of
                            None \<Rightarrow> row1
                          | Some bio \<Rightarrow>
                              dict_set ''Bio''
                                (anonymize_bio bio original_name new_first new_last new_full)
                                row1)
              in Inr (row2, used', r'))))"

fun mentor_rows ::
  "row list \<Rightarrow> string set \<Rightarrow> rng \<Rightarrow> py_error + (row list \<times> string set \<times> rng)" where
  "mentor_rows [] used r = Inr ([], used, r)"
| "mentor_rows (rw # rws) used r =
     (case mentor_row rw used r of
        Inl e \<Rightarrow> Inl e
      | Inr (rw', used', r') \<Rightarrow>
          (case mentor_rows rws used' r' of
             Inl e \<Rightarrow> Inl e
           | Inr (rws', used'', r'') \<Rightarrow> Inr (rw' # rws', used'', r'')))"

text \<open>
  \<^verbatim>\<open>anonymize_csv\<close> of the mentors script, from the header and records read to the header
  and lines written.
\<close>

definition mentors_anonymize_csv ::
  "string list \<times> row list \<Rightarrow> rng \<Rightarrow> py_error + (string list \<times> string list list)" where
  "mentors_anonymize_csv input r =
     (case input of (fieldnames, rows_in) \<Rightarrow>
        (case mentor_rows rows_in {} r of
           Inl e \<Rightarrow> Inl e
         | Inr (rows_out, used, r') \<Rightarrow> write_csv fieldnames rows_out))"



section \<open>anonymize\_portfolio.py\<close>

definition PREFIXES :: "string list" where
  "PREFIXES =
     [''Quantum'', ''Stellar'', ''Nexus'', ''Apex'', ''Vertex'', ''Synergy'', ''Fusion'',
      ''Pinnacle'', ''Nova'', ''Zenith'', ''Prime'', ''Atlas'', ''Titan'', ''Phoenix'',
      ''Orion'', ''Echo'', ''Pulse'', ''Spark'', ''Flux'', ''Prism'', ''Vortex'',
      ''Ember'', ''Horizon'', ''Catalyst'', ''Lumina'', ''Cipher'', ''Matrix'', ''Vector'',
      ''Helix'', ''Nexum'', ''Axiom'', ''Zenon'']"

definition SUFFIXES :: "string list" where
  "SUFFIXES =
     [''Tech'', ''Labs'', ''Systems'', ''Solutions'', ''Dynamics'', ''Works'',
      ''Innovations'', ''Digital'', ''Analytics'', ''Networks'', ''Platform'', ''Data'',
      ''Cloud'', ''AI'', ''Robotics'', ''Energy'', ''Medical'', ''Health'', ''Finance'',
      ''Security'', ''Vision'', ''Media'', ''Logic'', ''Flow'', ''Core'', ''Hub'',
      ''Link'', ''Wave'', ''Pulse'', ''Sync'']"

definition STANDALONE_NAMES :: "string list" where
  "STANDALONE_NAMES =
     [''Brightpath'', ''Clearview'', ''Swiftline'', ''Truepoint'', ''Mindshift'',
      ''Skyward'', ''Groundwork'', ''Firefly'', ''Blueprint'', ''Keystone'', ''Milestone'',
      ''Touchstone'', ''Cornerstone'', ''Redwood'', ''Bluestream'', ''Greenfield'',
      ''Whitespace'', ''Blackstone'', ''Silverlake'', ''Goldmine'', ''Irongate'',
      ''Steelbridge'', ''Copperleaf'', ''Platinum'']"

text \<open>
  \<^verbatim>\<open>generate_company_name(used_names)\<close>: up to the given number of attempts (1000 in the
  source); the result is the name, the set of used names as the call leaves it, and the
  random source.
\<close>

fun company_attempts :: "nat \<Rightarrow> string set \<Rightarrow> rng \<Rightarrow> string \<times> string set \<times> rng" where
  "company_attempts 0 used r = (''Company '' @ py_str (int (card used) + 1), used, r)"
| "company_attempts (Suc n) used r =
     (case choice [''prefix_suffix'', ''standalone''] r of (style, r1) \<Rightarrow>
      case (if style = ''prefix_suffix''
            then (case choice PREFIXES r1 of (p, r2) \<Rightarrow>
                  case choice SUFFIXES r2 of (s, r3) \<Rightarrow> (p @ '' '' @ s, r3))
            else choice STANDALONE_NAMES r1) of (name, r3) \<Rightarrow>
        if name \<notin> used then (name, insert name used, r3)
        else company_attempts n used r3)"

definition generate_company_name :: "string set \<Rightarrow> rng \<Rightarrow> string \<times> string set \<times> rng" where
  "generate_company_name used r = company_attempts 1000 used r"

definition dot_opt :: regex where
  \<comment> \<open>\<^verbatim>\<open>\.?\<close>\<close>
  "dot_opt = Opt (Chr CHR ''.'')"

definition suffix_patterns :: "regex list" where
  \<comment> \<open>\<^verbatim>\<open>[r'\bInc\.?', r'\bLLC', r'\bLtd\.?', r'\bCorp\.?', r'\bCo\.?', r'\bGmbH', r'\bPLC']\<close>\<close>
  "suffix_patterns =
     [Seqs [WordB, Lit ''Inc'', dot_opt], Seqs [WordB, Lit ''LLC''],
      Seqs [WordB, Lit ''Ltd'', dot_opt], Seqs [WordB, Lit ''Corp'', dot_opt],
      Seqs [WordB, Lit ''Co'', dot_opt], Seqs [WordB, Lit ''GmbH''], Seqs [WordB, Lit ''PLC'']]"

fun first_search :: "regex list \<Rightarrow> string \<Rightarrow> string option" where
  "first_search [] s = None"
| "first_search (p # ps) s =
     (case re_search True p s of Some mt \<Rightarrow> Some (group0 mt) | None \<Rightarrow> first_search ps s)"

definition preserve_suffix :: "string \<Rightarrow> string option" where
  "preserve_suffix original_name = first_search suffix_patterns original_name"

definition corp_suffix_pattern :: regex where
  \<comment> \<open>\<^verbatim>\<open>\b(Inc\.?|LLC|Ltd\.?|Corp\.?|Co\.?|GmbH|PLC)\b\<close>\<close>
  "corp_suffix_pattern =
     Seqs [WordB,
           Grp 1 (Alts [Seq (Lit ''Inc'') dot_opt, Lit ''LLC'', Seq (Lit ''Ltd'') dot_opt,
                        Seq (Lit ''Corp'') dot_opt, Seq (Lit ''Co'') dot_opt, Lit ''GmbH'',
                        Lit ''PLC'']),
           WordB]"

definition normalize_to_slug :: "string \<Rightarrow> string" where
  "normalize_to_slug name =
     (let name1 = re_sub True corp_suffix_pattern (\<lambda>_. []) name;
          slug1 = py_lower name1;
          slug2 = re_sub False (NCls [az, d09, Space, One CHR ''-'']) (\<lambda>_. []) slug1;
          slug3 = re_sub False (Plus (Cls [Space])) (\<lambda>_. ''-'') slug2;
          slug4 = re_sub False (Plus (Chr CHR ''-'')) (\<lambda>_. ''-'') slug3
      in py_strip_chr CHR ''-'' slug4)"

definition amount_pattern :: regex where
  \<comment> \<open>\<^verbatim>\<open>\$([0-9,]+(?:\.[0-9]+)?)\s*([BMKTbmkt]|[Mm]illion|[Bb]illion|[Tt]rillion)?\<close>\<close>
  "amount_pattern =
     Seqs [Chr CHR ''$'',
           Grp 1 (Seq (Plus (Cls [d09, One CHR '','']))
                      (Opt (Seq (Chr CHR ''.'') (Plus (Cls [d09]))))),
           Star (Cls [Space]),
           Opt (Grp 2 (Alts [Cls (map One ''BMKTbmkt''),
                             Seq (Cls (map One ''Mm'')) (Lit ''illion''),
                             Seq (Cls (map One ''Bb'')) (Lit ''illion''),
                             Seq (Cls (map One ''Tt'')) (Lit ''rillion'')]))]"

text \<open>
  \<^verbatim>\<open>replace_amount\<close>, the replacement function of \<^verbatim>\<open>randomize_amount\<close>. The body of the
  \<^verbatim>\<open>try\<close> is \<open>amount_body\<close>: it fails where \<^verbatim>\<open>float\<close> raises, before anything is drawn;
  the bare \<^verbatim>\<open>except\<close> then returns \<^verbatim>\<open>match.group(0)\<close>.
\<close>

definition suffix_multiplier :: "string \<Rightarrow> rat" where
  "suffix_multiplier suffix =
     (let u = py_upper suffix
      in if u = ''K'' then 1000
         else if u = ''M'' then 1000000
         else if u = ''B'' then 1000000000
         else if u \<in> set [''T'', ''TRILLION''] then 1000000000000
         else 1)"

definition format_amount :: "rat \<Rightarrow> string" where
  "format_amount new_amount =
     (if 1000000000000 \<le> new_amount then ''$'' @ fmt_f1 (new_amount / 1000000000000) @ ''T''
      else if 1000000000 \<le> new_amount then ''$'' @ fmt_f1 (new_amount / 1000000000) @ ''B''
      else if 1000000 \<le> new_amount then ''$'' @ fmt_f1 (new_amount / 1000000) @ ''M''
      else if 1000 \<le> new_amount then ''$'' @ fmt_f1 (new_amount / 1000) @ ''K''
      else ''$'' @ fmt_f0 new_amount)"

definition amount_body :: "pymatch \<Rightarrow> rng \<Rightarrow> (string \<times> rng) option" where
  "amount_body mt r =
     (let amount_str = filter (\<lambda>c. c \<noteq> CHR '','') (case group mt 1 of None \<Rightarrow> [] | Some g \<Rightarrow> g);
          suffix = (case group mt 2 of None \<Rightarrow> [] | Some g \<Rightarrow> g)
      in case py_float amount_str of
           None \<Rightarrow> None
         | Some amount0 \<Rightarrow>
             (let amount = amount0 * suffix_multiplier suffix
              in case uniform (67 / 100) (133 / 100) r of
                   (factor, r') \<Rightarrow> Some (format_amount (amount * factor), r')))"

definition replace_amount :: "pymatch \<Rightarrow> rng \<Rightarrow> string \<times> rng" where
  "replace_amount mt r =
     (case amount_body mt r of None \<Rightarrow> (group0 mt, r) | Some res \<Rightarrow> res)"

definition randomize_amount :: "string \<Rightarrow> rng \<Rightarrow> string \<times> rng" where
  "randomize_amount text r = re_sub_st True amount_pattern replace_amount text r"




text \<open>
  \<^verbatim>\<open>anonymize_csv\<close> of the portfolio script. The first pass collects, per column, the
  cells that are not empty (\<^verbatim>\<open>if row.get('Location')\<close>), in the order of the records.
\<close>

fun collect_column :: "string \<Rightarrow> row list \<Rightarrow> string list" where
  "collect_column k [] = []"
| "collect_column k (rw # rws) =
     (case dict_get rw k of
        Some (Some v) \<Rightarrow> if v \<noteq> [] then v # collect_column k rws else collect_column k rws
      | _ \<Rightarrow> collect_column k rws)"

text \<open>
  The state of the second pass: the names used, the three cursors into the shuffled
  columns, and the random source.
\<close>

record pass_state =
  used_names :: "string set"
  loc_index :: nat
  stage_index :: nat
  sales_index :: nat
  source :: rng

text \<open>
  \<^verbatim>\<open>if k in row and values and index < len(values): row[k] = values[index]; index += 1\<close>
\<close>

definition assign_shuffled :: "string \<Rightarrow> string list \<Rightarrow> nat \<Rightarrow> row \<Rightarrow> row \<times> nat" where
  "assign_shuffled k vals index rw =
     (if has_key rw k \<and> vals \<noteq> [] \<and> index < length vals
      then (dict_set k (Some (vals ! index)) rw, index + 1)
      else (rw, index))"

text \<open>
  The body of the loop of the second pass for one record. \<open>describe\<close> stands for
  \<^verbatim>\<open>anonymize_description\<close>, which writes the field \<^verbatim>\<open>Description\<close> only: it is a parameter
  here, so that what is proved of the other fields holds whatever it returns.
  \<^verbatim>\<open>row.get('Name', '')\<close> is \<^verbatim>\<open>None\<close> for an empty cell of a short line, on which
  \<^verbatim>\<open>re.search\<close> raises \<^verbatim>\<open>TypeError\<close>.
\<close>

definition company_row ::
  "(cell \<Rightarrow> string \<Rightarrow> string \<Rightarrow> string \<Rightarrow> rng \<Rightarrow> cell \<times> rng) \<Rightarrow>
   string list \<Rightarrow> string list \<Rightarrow> string list \<Rightarrow> row \<Rightarrow> pass_state \<Rightarrow> py_error + (row \<times> pass_state)"
where
  "company_row describe locations stages sales_models rw st =
     (case (case dict_get rw ''Name'' of None \<Rightarrow> Some [] | Some v \<Rightarrow> v) of
        None \<Rightarrow> Inl TypeError
      | Some original_name \<Rightarrow>
          (case generate_company_name (used_names st) (source st) of
             (new_base_name, used', r1) \<Rightarrow>
               (let suffix = preserve_suffix original_name;
                    new_name = (case suffix of None \<Rightarrow> new_base_name
                                | Some s \<Rightarrow> if s = [] then new_base_name
                                            else new_base_name @ '', '' @ s);
                    row1 = dict_set ''Name'' (Some new_name) rw;
                    slug = normalize_to_slug new_name;
                    new_website = ''https://'' @ slug @ ''.example'';
                    row2 = dict_set ''Website'' (Some new_website) row1;
                    row3 = dict_set ''Pitch'' (Some (''https://pitch.vc/companies/'' @ slug)) row2
                in case (case dict_get row3 ''Description'' of
                           None \<Rightarrow> (row3, r1)
                         | Some d \<Rightarrow>
                             (case describe d original_name new_name new_website r1 of
                                (d', r2) \<Rightarrow> (dict_set ''Description'' d' row3, r2))) of
                     (row4, r2) \<Rightarrow>
                       (case assign_shuffled ''Location'' locations (loc_index st) row4 of
                          (row5, li) \<Rightarrow>
                        case assign_shuffled ''Stage'' stages (stage_index st) row5 of
                          (row6, si) \<Rightarrow>
                        case assign_shuffled ''Sales Model'' sales_models (sales_index st) row6 of
                          (row7, mi) \<Rightarrow>
                            Inr (row7, \<lparr>used_names = used', loc_index = li, stage_index = si,
                                        sales_index = mi, source = r2\<rparr>)))))"

fun company_rows ::
  "(cell \<Rightarrow> string \<Rightarrow> string \<Rightarrow> string \<Rightarrow> rng \<Rightarrow> cell \<times> rng) \<Rightarrow>
   string list \<Rightarrow> string list \<Rightarrow> string list \<Rightarrow> row list \<Rightarrow> pass_state \<Rightarrow>
   py_error + (row list \<times> pass_state)"
where
  "company_rows describe locations stages sales_models [] st = Inr ([], st)"
| "company_rows describe locations stages sales_models (rw # rws) st =
     (case company_row describe locations stages sales_models rw st of
        Inl e \<Rightarrow> Inl e
      | Inr (rw', st') \<Rightarrow>
          (case company_rows describe locations stages sales_models rws st' of
             Inl e \<Rightarrow> Inl e
           | Inr (rws', st'') \<Rightarrow> Inr (rw' # rws', st'')))"

definition portfolio_anonymize_csv ::
  "(cell \<Rightarrow> string \<Rightarrow> string \<Rightarrow> string \<Rightarrow> rng \<Rightarrow> cell \<times> rng) \<Rightarrow>
   string list \<times> row list \<Rightarrow> rng \<Rightarrow> py_error + (string list \<times> string list list)"
where
  "portfolio_anonymize_csv describe input r =
     (case input of (fieldnames, rows_in) \<Rightarrow>
        (case shuffle (collect_column ''Location'' rows_in) r of (locations, r1) \<Rightarrow>
         case shuffle (collect_column ''Stage'' rows_in) r1 of (stages, r2) \<Rightarrow>
         case shuffle (collect_column ''Sales Model'' rows_in) r2 of (sales_models, r3) \<Rightarrow>
           (case company_rows describe locations stages sales_models rows_in
                   \<lparr>used_names = {}, loc_index = 0, stage_index = 0, sales_index = 0,
                    source = r3\<rparr> of
              Inl e \<Rightarrow> Inl e
            | Inr (rows_out, st) \<Rightarrow> write_csv fieldnames rows_out)))"

text \<open>
  The column of a field in a file: the texts of that field over the records read, and
  over the lines written (the field's place is its place in the header).
\<close>

definition column_in :: "string \<Rightarrow> row list \<Rightarrow> string list" where
  "column_in k rows = map (\<lambda>rw. cell_text (dict_get rw k)) rows"

fun index_of :: "'a \<Rightarrow> 'a list \<Rightarrow> nat" where
  "index_of k [] = 0"
| "index_of k (x # xs) = (if x = k then 0 else Suc (index_of k xs))"

definition column_out :: "string \<Rightarrow> string list \<times> string list list \<Rightarrow> string list" where
  "column_out k file = (case file of (fieldnames, lines) \<Rightarrow>
     map (\<lambda>ln. ln ! index_of k fieldnames) lines)"

section \<open>Auxiliary definitions for the proofs\<close>




section \<open>Evaluating the character predicates\<close>

text \<open>
  The predicates on the eight bits of a character, for evaluation by rewriting: comparing
  code points as numbers is far slower.
\<close>

lemma re_word_bits [code]:
  "re_word (Char b0 b1 b2 b3 b4 b5 b6 b7) =
     (if b7 then (if b6 then (if b5 then (\<not> b4 \<or> (b3 \<or> (\<not> b2 \<or>
     (\<not> b1 \<or> \<not> b0)))) else (\<not> b4 \<or> (b3 \<or> (\<not> b2 \<or>
     (\<not> b1 \<or> \<not> b0))))) else (b5 \<and> (if b4 then (if b3 then (if b2 then
     (\<not> b1 \<or> \<not> b0) else (if b1 then \<not> b0 else b0)) else (if b2 then
     (\<not> b1 \<and> b0) else b1)) else (b3 \<and> (\<not> b2 \<and> (b1 \<and> \<not>
     b0)))))) else (if b6 then (if b5 then (if b4 then (\<not> b3 \<or> (\<not> b2
     \<and> (\<not> b1 \<or> \<not> b0))) else (b3 \<or> (b2 \<or> (b1 \<or> b0)))) else
     (if b4 then (\<not> b3 \<or> (if b2 then (b1 \<and> b0) else (\<not> b1 \<or>
     \<not> b0))) else (b3 \<or> (b2 \<or> (b1 \<or> b0))))) else (b5 \<and> (b4 \<and>
     (\<not> b3 \<or> (\<not> b2 \<and> \<not> b1))))))"
  by (cases b0; cases b1; cases b2; cases b3; cases b4; cases b5; cases b6; cases b7)
     (simp_all add: re_word_def in_range_def code_def)

lemma re_space_bits [code]:
  "re_space (Char b0 b1 b2 b3 b4 b5 b6 b7) =
     (if b7 then (\<not> b6 \<and> (if b5 then (\<not> b4 \<and> (\<not> b3 \<and>
     (\<not> b2 \<and> (\<not> b1 \<and> \<not> b0)))) else (\<not> b4 \<and> (\<not> b3
     \<and> (b2 \<and> (\<not> b1 \<and> b0)))))) else (\<not> b6 \<and> (if b5 then
     (\<not> b4 \<and> (\<not> b3 \<and> (\<not> b2 \<and> (\<not> b1 \<and> \<not>
     b0)))) else (if b4 then (b3 \<and> b2) else (b3 \<and> (if b2 then \<not> b1 else
     (b1 \<or> b0)))))))"
  by (cases b0; cases b1; cases b2; cases b3; cases b4; cases b5; cases b6; cases b7)
     (simp_all add: re_space_def in_range_def code_def)

lemma re_digit_bits [code]:
  "re_digit (Char b0 b1 b2 b3 b4 b5 b6 b7) =
     (\<not> b7 \<and> (\<not> b6 \<and> (b5 \<and> (b4 \<and> (\<not> b3 \<or> (\<not>
     b2 \<and> \<not> b1))))))"
  by (cases b0; cases b1; cases b2; cases b3; cases b4; cases b5; cases b6; cases b7)
     (simp_all add: re_digit_def in_range_def code_def)

lemma lower_chr_bits [code]:
  "lower_chr (Char b0 b1 b2 b3 b4 b5 b6 b7) =
     (if (if b7 then (b6 \<and> (\<not> b5 \<and> (\<not> b4 \<or> (if b3 then (\<not> b2 \<or> (\<not> b1 \<or> \<not> b0)) else (\<not> b2 \<or> (\<not> b1 \<or> \<not> b0)))))) else (b6 \<and> (\<not> b5 \<and> (if b4 then (\<not> b3 \<or> (\<not> b2 \<and> (\<not> b1 \<or> \<not> b0))) else (b3 \<or> (b2 \<or> (b1 \<or> b0)))))))
      then Char b0 b1 b2 b3 b4 True b6 b7 else Char b0 b1 b2 b3 b4 b5 b6 b7)"
  by (cases b0; cases b1; cases b2; cases b3; cases b4; cases b5; cases b6; cases b7)
     (simp_all add: lower_chr_def in_range_def code_def char_of_def bit_Suc_0_iff)

section \<open>The matcher on one-character patterns\<close>

declare sub_scan.simps [simp del]












section \<open>The shape of a slug\<close>







lemma starts_with_iff: "starts_with s p \<longleftrightarrow> take (length p) s = p"
  by (induction s p rule: starts_with.induct) auto

















section \<open>Year perturbation\<close>





















section \<open>The frame of the mentors script\<close>

lemma dict_get_set: "dict_get (dict_set k v d) k' = (if k' = k then Some v else dict_get d k')"
  by (induction d) (auto simp: dict_get_def)

lemma dict_set_present_pair: "(k, b) \<in> set d \<Longrightarrow> map fst (dict_set k v d) = map fst d"
  by (induction d) auto

lemma dict_set_present: "k \<in> set (map fst d) \<Longrightarrow> map fst (dict_set k v d) = map fst d"
  using dict_set_present_pair by fastforce

lemma dict_get_Some_key: "dict_get d k = Some v \<Longrightarrow> k \<in> set (map fst d)"
  unfolding dict_get_def by (induction d) (auto split: if_splits)

lemma mentor_row_frame:
  assumes "mentor_row rw used r = Inr (rw', used', r')"
  shows "k \<noteq> ''Full Name'' \<Longrightarrow> k \<noteq> ''Bio'' \<Longrightarrow> dict_get rw' k = dict_get rw k"
  using assms
  by (auto simp: mentor_row_def Let_def dict_get_set split: option.splits prod.splits)

lemma mentor_row_keys:
  assumes "mentor_row rw used r = Inr (rw', used', r')" and "''Full Name'' \<in> set (map fst rw)"
  shows "map fst rw' = map fst rw"
proof -
  have fn: "\<And>v. map fst (dict_set ''Full Name'' v rw) = map fst rw"
    using assms(2) by (rule dict_set_present)
  have bio: "\<And>d b v. dict_get d ''Bio'' = Some b \<Longrightarrow> map fst (dict_set ''Bio'' v d) = map fst d"
    by (rule dict_set_present) (rule dict_get_Some_key)
  from assms(1) obtain v where
    "rw' = dict_set ''Full Name'' v rw \<or>
     (\<exists>b w. dict_get (dict_set ''Full Name'' v rw) ''Bio'' = Some b \<and>
            rw' = dict_set ''Bio'' w (dict_set ''Full Name'' v rw))"
    by (auto simp: mentor_row_def Let_def split: option.splits prod.splits)
  then show ?thesis
  proof
    assume "rw' = dict_set ''Full Name'' v rw"
    then show ?thesis by (simp add: fn)
  next
    assume "\<exists>b w. dict_get (dict_set ''Full Name'' v rw) ''Bio'' = Some b \<and>
            rw' = dict_set ''Bio'' w (dict_set ''Full Name'' v rw)"
    then obtain b w where g: "dict_get (dict_set ''Full Name'' v rw) ''Bio'' = Some b"
      and e: "rw' = dict_set ''Bio'' w (dict_set ''Full Name'' v rw)" by blast
    have "map fst rw' = map fst (dict_set ''Full Name'' v rw)"
      unfolding e using g by (rule bio)
    then show ?thesis by (simp add: fn)
  qed
qed

lemma mentor_row_ok:
  assumes "dict_get rw ''Full Name'' = Some (Some s)"
  shows "\<exists>res. mentor_row rw used r = Inr res"
  using assms by (simp add: mentor_row_def Let_def split: prod.splits option.splits)

lemma mentor_rows_frame:
  "mentor_rows rws used r = Inr (rws', used', r') \<Longrightarrow>
   list_all2 (\<lambda>rw rw'. (\<forall>k. k \<noteq> ''Full Name'' \<and> k \<noteq> ''Bio'' \<longrightarrow> dict_get rw' k = dict_get rw k) \<and>
                       (''Full Name'' \<in> set (map fst rw) \<longrightarrow> map fst rw' = map fst rw)) rws rws'"
proof (induction rws arbitrary: used r rws' used' r')
  case Nil
  then show ?case by simp
next
  case (Cons rw rws)
  from Cons.prems obtain rw1 u1 r1 rest where
    1: "mentor_row rw used r = Inr (rw1, u1, r1)" and
    2: "mentor_rows rws u1 r1 = Inr (rest, used', r')" and
    3: "rws' = rw1 # rest"
    by (auto split: sum.splits prod.splits)
  show ?case
    unfolding 3 using Cons.IH [OF 2] mentor_row_frame [OF 1] mentor_row_keys [OF 1]
    by simp
qed

lemma mentor_rows_ok:
  "list_all (\<lambda>rw. \<exists>s. dict_get rw ''Full Name'' = Some (Some s)) rws \<Longrightarrow>
   \<exists>res. mentor_rows rws used r = Inr res"
proof (induction rws arbitrary: used r)
  case Nil
  then show ?case by simp
next
  case (Cons rw rws)
  then obtain s where "dict_get rw ''Full Name'' = Some (Some s)" by auto
  from mentor_row_ok [OF this, of used r] obtain rw1 u1 r1 where
    1: "mentor_row rw used r = Inr (rw1, u1, r1)" by (metis prod_cases3)
  from Cons have "list_all (\<lambda>rw. \<exists>s. dict_get rw ''Full Name'' = Some (Some s)) rws" by simp
  from Cons.IH [OF this, of u1 r1] obtain rest u2 r2 where
    2: "mentor_rows rws u1 r1 = Inr (rest, u2, r2)" by (metis prod_cases3)
  show ?case by (simp add: 1 2)
qed

text \<open>
  C9. The mentors script writes the header it read. Every line it writes has one text per
  field name, and for every field other than \<^verbatim>\<open>Full Name\<close> and \<^verbatim>\<open>Bio\<close> that text is the text
  of the same field of the record read. The script does write its file whenever every
  record read has a string under \<^verbatim>\<open>Full Name\<close> and no key outside the header, which is what
  \<^verbatim>\<open>csv.DictReader\<close> yields for a header with that column and lines of full length.
\<close>

theorem mentors_frame:
  "(mentors_anonymize_csv (fieldnames, rows) r = Inr (header, lines) \<longrightarrow>
      header = fieldnames \<and> length lines = length rows \<and>
      (\<forall>i < length rows. length (lines ! i) = length fieldnames \<and>
         (\<forall>j < length fieldnames.
            fieldnames ! j \<noteq> ''Full Name'' \<longrightarrow> fieldnames ! j \<noteq> ''Bio'' \<longrightarrow>
            lines ! i ! j = cell_text (dict_get (rows ! i) (fieldnames ! j))))) \<and>
   (list_all (\<lambda>rw. (\<exists>s. dict_get rw ''Full Name'' = Some (Some s)) \<and>
                   list_all (\<lambda>kv. fst kv \<in> set fieldnames) rw) rows \<longrightarrow>
      (\<exists>lines'. mentors_anonymize_csv (fieldnames, rows) r = Inr (fieldnames, lines')))"
proof (intro conjI impI)
  assume a: "mentors_anonymize_csv (fieldnames, rows) r = Inr (header, lines)"
  then obtain rows_out used' r' where
    m: "mentor_rows rows {} r = Inr (rows_out, used', r')" and
    w: "write_csv fieldnames rows_out = Inr (header, lines)"
    by (auto simp: mentors_anonymize_csv_def split: sum.splits prod.splits)
  from w have h: "header = fieldnames"
    and l: "lines = map (\<lambda>rw. map (\<lambda>k. cell_text (dict_get rw k)) fieldnames) rows_out"
    by (auto simp: write_csv_def split: if_splits)
  note f = mentor_rows_frame [OF m]
  then have len: "length rows_out = length rows"
    by (simp add: list_all2_lengthD)
  show "header = fieldnames" by (rule h)
  show "length lines = length rows" by (simp add: l len)
  show "\<forall>i < length rows. length (lines ! i) = length fieldnames \<and>
         (\<forall>j < length fieldnames.
            fieldnames ! j \<noteq> ''Full Name'' \<longrightarrow> fieldnames ! j \<noteq> ''Bio'' \<longrightarrow>
            lines ! i ! j = cell_text (dict_get (rows ! i) (fieldnames ! j)))"
  proof (intro allI impI conjI)
    fix i assume i: "i < length rows"
    then show "length (lines ! i) = length fieldnames" by (simp add: l len)
    fix j assume j: "j < length fieldnames"
      and n1: "fieldnames ! j \<noteq> ''Full Name''" and n2: "fieldnames ! j \<noteq> ''Bio''"
    from f i have "dict_get (rows_out ! i) (fieldnames ! j) = dict_get (rows ! i) (fieldnames ! j)"
      using n1 n2 by (auto dest: list_all2_nthD)
    then show "lines ! i ! j = cell_text (dict_get (rows ! i) (fieldnames ! j))"
      using i j by (simp add: l len)
  qed
next
  assume wf: "list_all (\<lambda>rw. (\<exists>s. dict_get rw ''Full Name'' = Some (Some s)) \<and>
                   list_all (\<lambda>kv. fst kv \<in> set fieldnames) rw) rows"
  then have "list_all (\<lambda>rw. \<exists>s. dict_get rw ''Full Name'' = Some (Some s)) rows"
    by (simp add: list_all_iff)
  from mentor_rows_ok [OF this, of "{}" r] obtain rows_out used' r' where
    m: "mentor_rows rows {} r = Inr (rows_out, used', r')" by (metis prod_cases3)
  note f = mentor_rows_frame [OF m]
  have "\<forall>i < length rows_out. list_all (\<lambda>kv. fst kv \<in> set fieldnames) (rows_out ! i)"
  proof (intro allI impI)
    fix i assume i: "i < length rows_out"
    then have i': "i < length rows" using f by (simp add: list_all2_lengthD)
    from wf i' obtain s where fn: "dict_get (rows ! i) ''Full Name'' = Some (Some s)"
      and ks: "list_all (\<lambda>kv. fst kv \<in> set fieldnames) (rows ! i)"
      by (auto simp: list_all_length)
    from fn have "''Full Name'' \<in> set (map fst (rows ! i))" by (rule dict_get_Some_key)
    with f i' have "map fst (rows_out ! i) = map fst (rows ! i)"
      by (auto dest: list_all2_nthD)
    moreover from ks have "\<forall>k \<in> set (map fst (rows ! i)). k \<in> set fieldnames"
      by (auto simp: list_all_iff)
    ultimately have "\<forall>k \<in> set (map fst (rows_out ! i)). k \<in> set fieldnames" by simp
    then show "list_all (\<lambda>kv. fst kv \<in> set fieldnames) (rows_out ! i)"
      by (auto simp: list_all_iff)
  qed
  then have "list_all (\<lambda>rw. list_all (\<lambda>kv. fst kv \<in> set fieldnames) rw) rows_out"
    by (simp add: list_all_length)
  then show "\<exists>lines'. mentors_anonymize_csv (fieldnames, rows) r = Inr (fieldnames, lines')"
    by (simp add: mentors_anonymize_csv_def m write_csv_def)
qed

theorem mentors_frame_witness:
  "list_all (\<lambda>rw. (\<exists>s. dict_get rw ''Full Name'' = Some (Some s)) \<and>
                  list_all (\<lambda>kv. fst kv \<in> set [''Full Name'', ''Bio'', ''Industry Expertise'']) rw)
     [[(''Full Name'', Some ''Dr. Jane Carter''), (''Bio'', Some ''Hi''),
       (''Industry Expertise'', Some ''Fintech'')]] \<and>
   (\<exists>lines. mentors_anonymize_csv
       ([''Full Name'', ''Bio'', ''Industry Expertise''],
        [[(''Full Name'', Some ''Dr. Jane Carter''), (''Bio'', Some ''Hi''),
          (''Industry Expertise'', Some ''Fintech'')]]) (\<lambda>_. 0)
       = Inr ([''Full Name'', ''Bio'', ''Industry Expertise''], lines) \<and>
      length lines = 1 \<and> lines ! 0 ! 2 = ''Fintech'')"
proof -
  let ?f = "[''Full Name'', ''Bio'', ''Industry Expertise'']"
  let ?rows = "[[(''Full Name'', Some ''Dr. Jane Carter''), (''Bio'', Some ''Hi''),
       (''Industry Expertise'', Some ''Fintech'')]]"
  have wf: "list_all (\<lambda>rw. (\<exists>s. dict_get rw ''Full Name'' = Some (Some s)) \<and>
                  list_all (\<lambda>kv. fst kv \<in> set ?f) rw) ?rows"
    by (simp add: dict_get_def)
  from mentors_frame [of ?f ?rows "\<lambda>_. 0"] wf obtain lines where
    L: "mentors_anonymize_csv (?f, ?rows) (\<lambda>_. 0) = Inr (?f, lines)" by blast
  from mentors_frame [of ?f ?rows "\<lambda>_. 0" ?f lines] L have
    1: "length lines = length ?rows" and
    2: "\<forall>i < length ?rows. length (lines ! i) = length ?f \<and>
         (\<forall>j < length ?f. ?f ! j \<noteq> ''Full Name'' \<longrightarrow> ?f ! j \<noteq> ''Bio'' \<longrightarrow>
            lines ! i ! j = cell_text (dict_get (?rows ! i) (?f ! j)))"
    by blast+
  from 2 have "lines ! 0 ! 2 = cell_text (dict_get (?rows ! 0) (?f ! 2))"
    by simp
  then have "lines ! 0 ! 2 = ''Fintech''"
    by (simp add: cell_text_def dict_get_def)
  with wf L 1 show ?thesis by auto
qed

end
